theory Spec2Isabelle
  imports Main
begin

section \<open>Data model\<close>

text \<open>
  Modelled from the spec: the role enumeration and the user record, declared in
  \<^verbatim>\<open>app/models/user.py\<close> outside the files at hand. The role is one of the closed
  set USER, ADMIN. A user has a system-assigned \<^verbatim>\<open>id\<close> (the field \<open>uid\<close> here,
  \<open>id\<close> being the identity function of HOL), an email and a username (optional
  identities), a nullable full name, a hashed password that is absent for OAuth-only
  accounts, a role and the two flags. An attribute that may hold Python's
  \<^verbatim>\<open>None\<close> has an option type.
\<close>

datatype UserRole = USER | ADMIN

record User =
  uid :: int
  email :: "string option"
  username :: "string option"
  full_name :: "string option"
  hashed_password :: "string option"
  role :: UserRole
  is_active :: bool
  is_verified :: bool

text \<open>
  Modelled from the spec: the partial update \<^verbatim>\<open>UserUpdate\<close>, declared in
  \<^verbatim>\<open>app/schemas/user.py\<close> outside the files at hand: zero or more of email,
  username and full name. The handler reads three attributes, each a string or
  \<^verbatim>\<open>None\<close>; a field that is omitted and a field that is null both read as
  \<^verbatim>\<open>None\<close>.
\<close>

record UserUpdate =
  upd_email :: "string option"
  upd_username :: "string option"
  upd_full_name :: "string option"

text \<open>
  Raised exceptions are values. \<open>HTTPException\<close> carries the status code and the detail
  string. \<open>RowGone\<close> stands for the failure of the ORM session when the row of the
  object it is asked to write back and reload is not in the table.
\<close>

datatype error = HTTPException nat string | RowGone

definition HTTP_400_BAD_REQUEST :: nat where
  "HTTP_400_BAD_REQUEST = 400"

definition HTTP_401_UNAUTHORIZED :: nat where
  "HTTP_401_UNAUTHORIZED = 401"

definition HTTP_403_FORBIDDEN :: nat where
  "HTTP_403_FORBIDDEN = 403"

section \<open>Role guards (\<^verbatim>\<open>app/core/deps.py\<close>)\<close>

text \<open>
  \<^verbatim>\<open>require_role(required_role)\<close> returns the closure \<^verbatim>\<open>role_checker\<close>; the
  model is the curried function. The member values of the enumeration
  (\<^verbatim>\<open>required_role.value\<close>) are declared outside the files at hand, so the function
  \<open>val\<close> from members to their values is a parameter.
\<close>

definition require_role :: "(UserRole \<Rightarrow> string) \<Rightarrow> UserRole \<Rightarrow> User \<Rightarrow> error + User" where
  "require_role val required_role current_user =
     (if role current_user \<noteq> required_role
      then Inl (HTTPException HTTP_403_FORBIDDEN
                  (''Access denied. Required role: '' @ val required_role))
      else Inr current_user)"

definition require_admin :: "User \<Rightarrow> error + User" where
  "require_admin current_user =
     (if role current_user \<noteq> ADMIN
      then Inl (HTTPException HTTP_403_FORBIDDEN ''Access denied. Admin role required.'')
      else Inr current_user)"

section \<open>The session and the directory\<close>

text \<open>
  The User Directory is the list of committed rows of the table. The handler works on
  \<^verbatim>\<open>current_user\<close>, the session's object for the caller's row: assignments to its
  attributes stay in the session until \<^verbatim>\<open>db.commit()\<close>, which writes the three
  attributes the handler can assign to the row with the object's primary key;
  \<^verbatim>\<open>db.refresh\<close> reloads the object from that row. A request that raises before
  the commit leaves the committed rows as they were.

  \<^verbatim>\<open>db.query(User).filter(c).first()\<close> is the first row satisfying \<open>c\<close>, or
  \<^verbatim>\<open>None\<close>: \<^const>\<open>find\<close>.
\<close>

definition commit :: "User \<Rightarrow> User list \<Rightarrow> User list" where
  "commit obj db =
     map (\<lambda>u. if uid u = uid obj
               then u\<lparr>email := email obj, username := username obj, full_name := full_name obj\<rparr>
               else u) db"

definition refresh :: "User \<Rightarrow> User list \<Rightarrow> User option" where
  "refresh obj db = find (\<lambda>u. uid u = uid obj) db"

text \<open>Python's truth value of a string-or-\<^verbatim>\<open>None\<close>: false for \<^verbatim>\<open>None\<close> and for the empty string.\<close>

definition truthy :: "string option \<Rightarrow> bool" where
  "truthy v = (case v of None \<Rightarrow> False | Some s \<Rightarrow> s \<noteq> [])"

section \<open>Profile routes (\<^verbatim>\<open>app/routes/users.py\<close>)\<close>

text \<open>
  What a call of the self-update leaves behind: the response (the raised exception or the
  returned record), the session's identity object as it is when the handler exits, and
  the committed directory.
\<close>

record outcome =
  response :: "error + User"
  identity :: User
  directory :: "User list"

text \<open>The tail of the handler: the full-name assignment, the commit and the refresh.\<close>

definition update_full_name :: "UserUpdate \<Rightarrow> User \<Rightarrow> User list \<Rightarrow> outcome" where
  "update_full_name user_update current_user db =
     (let cu = (if upd_full_name user_update \<noteq> None
                then current_user\<lparr>full_name := upd_full_name user_update\<rparr>
                else current_user);
          db' = commit cu db
      in case refresh cu db' of
           None \<Rightarrow> \<lparr>response = Inl RowGone, identity = cu, directory = db'\<rparr>
         | Some r \<Rightarrow> \<lparr>response = Inr r, identity = r, directory = db'\<rparr>)"

text \<open>The username block, followed by the tail.\<close>

definition update_username :: "UserUpdate \<Rightarrow> User \<Rightarrow> User list \<Rightarrow> outcome" where
  "update_username user_update current_user db =
     (if truthy (upd_username user_update) \<and> upd_username user_update \<noteq> username current_user
      then (case find (\<lambda>u. username u = upd_username user_update) db of
              Some existing_username \<Rightarrow>
                \<lparr>response = Inl (HTTPException HTTP_400_BAD_REQUEST ''Username already taken''),
                 identity = current_user, directory = db\<rparr>
            | None \<Rightarrow>
                update_full_name user_update
                  (current_user\<lparr>username := upd_username user_update\<rparr>) db)
      else update_full_name user_update current_user db)"

text \<open>The handler: the email block, followed by the rest.\<close>

definition update_user_profile :: "UserUpdate \<Rightarrow> User \<Rightarrow> User list \<Rightarrow> outcome" where
  "update_user_profile user_update current_user db =
     (if truthy (upd_email user_update) \<and> upd_email user_update \<noteq> email current_user
      then (case find (\<lambda>u. email u = upd_email user_update) db of
              Some existing_user \<Rightarrow>
                \<lparr>response = Inl (HTTPException HTTP_400_BAD_REQUEST ''Email already registered''),
                 identity = current_user, directory = db\<rparr>
            | None \<Rightarrow>
                update_username user_update
                  (current_user\<lparr>email := upd_email user_update\<rparr>) db)
      else update_username user_update current_user db)"

text \<open>
  Self-delete: the row with the caller's primary key is deleted and committed; the
  handler raises nothing and returns \<^verbatim>\<open>None\<close> (status 204, no content), here
  \<open>Inr ()\<close>, beside the committed directory.
\<close>

definition delete_user_account :: "User \<Rightarrow> User list \<Rightarrow> (error + unit) \<times> User list" where
  "delete_user_account current_user db =
     (Inr (), filter (\<lambda>u. uid u \<noteq> uid current_user) db)"

text \<open>The four counts of the statistics route, each a query of its own on the table.\<close>

record stats =
  total_users :: nat
  active_users :: nat
  verified_users :: nat
  admin_users :: nat

definition get_admin_stats :: "User \<Rightarrow> User list \<Rightarrow> stats" where
  "get_admin_stats current_user db =
     \<lparr>total_users = length db,
      active_users = length (filter (\<lambda>u. is_active u = True) db),
      verified_users = length (filter (\<lambda>u. is_verified u = True) db),
      admin_users = length (filter (\<lambda>u. role u = ADMIN) db)\<rparr>"

text \<open>
  The identity a handler is given has been resolved from the directory: it is a row of
  the directory, and the only row with its primary key.
\<close>

definition resolved :: "User \<Rightarrow> User list \<Rightarrow> bool" where
  "resolved current_user db \<longleftrightarrow>
     current_user \<in> set db \<and> (\<forall>u\<in>set db. uid u = uid current_user \<longrightarrow> u = current_user)"

section \<open>Example directory\<close>

definition alice :: User where
  "alice = \<lparr>uid = 1, email = Some ''a@x.com'', username = Some ''alice'',
            full_name = Some ''Alice'', hashed_password = Some ''h1'', role = USER,
            is_active = True, is_verified = True\<rparr>"

definition bob :: User where
  "bob = \<lparr>uid = 2, email = Some ''b@x.com'', username = Some ''bob'',
          full_name = None, hashed_password = None, role = ADMIN,
          is_active = True, is_verified = False\<rparr>"

text \<open>An assignment of values to the members of the enumeration, for the examples.\<close>

definition role_name :: "UserRole \<Rightarrow> string" where
  "role_name r = (case r of USER \<Rightarrow> ''user'' | ADMIN \<Rightarrow> ''admin'')"

section \<open>Auxiliary notions\<close>

text \<open>
  The identity object once the three blocks of the self-update have run without raising:
  each attribute holds the request's value where the block's condition admits it, and
  its old value otherwise.
\<close>

definition assigned :: "UserUpdate \<Rightarrow> User \<Rightarrow> User" where
  "assigned user_update current_user =
     current_user\<lparr>
       email := (if truthy (upd_email user_update) \<and> upd_email user_update \<noteq> email current_user
                 then upd_email user_update else email current_user),
       username := (if truthy (upd_username user_update) \<and> upd_username user_update \<noteq> username current_user
                    then upd_username user_update else username current_user),
       full_name := (if upd_full_name user_update \<noteq> None
                     then upd_full_name user_update else full_name current_user)\<rparr>"

text \<open>The conditions under which the email block and the username block raise.\<close>

definition email_taken :: "UserUpdate \<Rightarrow> User \<Rightarrow> User list \<Rightarrow> bool" where
  "email_taken user_update current_user db \<longleftrightarrow>
     truthy (upd_email user_update) \<and> upd_email user_update \<noteq> email current_user \<and>
     find (\<lambda>u. email u = upd_email user_update) db \<noteq> None"

definition username_taken :: "UserUpdate \<Rightarrow> User \<Rightarrow> User list \<Rightarrow> bool" where
  "username_taken user_update current_user db \<longleftrightarrow>
     truthy (upd_username user_update) \<and> upd_username user_update \<noteq> username current_user \<and>
     find (\<lambda>u. username u = upd_username user_update) db \<noteq> None"

section \<open>Example requests\<close>

text \<open>Requests of Alice against the directory of Alice and Bob, used by the closed examples.\<close>

definition upd_same :: UserUpdate where
  "upd_same = \<lparr>upd_email = Some ''a2@x.com'', upd_username = Some ''alice'', upd_full_name = Some ''''\<rparr>"

definition upd_clash :: UserUpdate where
  "upd_clash = \<lparr>upd_email = Some ''c@x.com'', upd_username = Some ''bob'', upd_full_name = None\<rparr>"

definition upd_own_clash :: UserUpdate where
  "upd_own_clash = \<lparr>upd_email = Some ''a@x.com'', upd_username = Some ''bob'', upd_full_name = None\<rparr>"

definition upd_empty_email :: UserUpdate where
  "upd_empty_email = \<lparr>upd_email = Some '''', upd_username = None, upd_full_name = None\<rparr>"

definition upd_email_only :: UserUpdate where
  "upd_email_only = \<lparr>upd_email = Some ''b@x.com'', upd_username = None, upd_full_name = Some ''A''\<rparr>"

definition upd_email_free :: UserUpdate where
  "upd_email_free = \<lparr>upd_email = Some ''c@x.com'', upd_username = None, upd_full_name = None\<rparr>"



definition upd_own :: UserUpdate where
  "upd_own = \<lparr>upd_email = Some ''a@x.com'', upd_username = Some '''', upd_full_name = None\<rparr>"

section \<open>The session: commit and refresh\<close>

lemma commit_keeps:
  "map uid (commit obj db) = map uid db"
  "map role (commit obj db) = map role db"
  "map is_active (commit obj db) = map is_active db"
  "map is_verified (commit obj db) = map is_verified db"
  "map hashed_password (commit obj db) = map hashed_password db"
  "length (commit obj db) = length db"
  by (simp_all add: commit_def)

lemma commit_others:
  "filter (\<lambda>u. uid u \<noteq> uid obj) (commit obj db) = filter (\<lambda>u. uid u \<noteq> uid obj) db"
  by (induction db) (simp_all add: commit_def)

lemma refresh_commit:
  "refresh obj (commit obj db) =
     map_option (\<lambda>u. u\<lparr>email := email obj, username := username obj, full_name := full_name obj\<rparr>)
       (refresh obj db)"
  by (induction db) (simp_all add: refresh_def commit_def)

lemma refresh_Some:
  "refresh obj db = Some r \<Longrightarrow> uid r = uid obj \<and> r \<in> set db"
  by (auto simp: refresh_def find_Some_iff)

lemma refresh_resolved:
  "resolved cu db \<Longrightarrow> uid obj = uid cu \<Longrightarrow> refresh obj db = Some cu"
  unfolding refresh_def resolved_def
  by (induction db) auto

lemma commit_same:
  "uid r = uid obj \<Longrightarrow> email r = email obj \<Longrightarrow> username r = username obj \<Longrightarrow>
   full_name r = full_name obj \<Longrightarrow> commit r (commit obj db) = commit obj db"
  by (simp add: commit_def)

section \<open>The self-update, case by case\<close>

lemma refresh_None_commit: "refresh obj db = None \<Longrightarrow> commit obj db = db"
  unfolding refresh_def commit_def find_None_iff
  by (intro map_idI) auto

lemma update_full_name_run:
  "update_full_name upd cu db =
     (let obj = cu\<lparr>full_name := (if upd_full_name upd \<noteq> None then upd_full_name upd else full_name cu)\<rparr>
      in case refresh cu db of
           None \<Rightarrow> \<lparr>response = Inl RowGone, identity = obj, directory = db\<rparr>
         | Some row \<Rightarrow>
             \<lparr>response = Inr (row\<lparr>email := email cu, username := username cu, full_name := full_name obj\<rparr>),
              identity = row\<lparr>email := email cu, username := username cu, full_name := full_name obj\<rparr>,
              directory = commit obj db\<rparr>)"
proof (cases "refresh cu db")
  case None
  then have "refresh (cu\<lparr>full_name := x\<rparr>) db = None" for x
    by (simp add: refresh_def)
  with None show ?thesis
    by (simp add: update_full_name_def Let_def refresh_commit refresh_None_commit)
next
  case (Some row)
  then have "refresh (cu\<lparr>full_name := x\<rparr>) db = Some row" for x
    by (simp add: refresh_def)
  with Some show ?thesis
    by (simp add: update_full_name_def Let_def refresh_commit)
qed

lemma update_user_profile_run:
  "update_user_profile upd cu db =
     (if email_taken upd cu db
      then \<lparr>response = Inl (HTTPException HTTP_400_BAD_REQUEST ''Email already registered''),
            identity = cu, directory = db\<rparr>
      else if username_taken upd cu db
      then \<lparr>response = Inl (HTTPException HTTP_400_BAD_REQUEST ''Username already taken''),
            identity = cu\<lparr>email := email (assigned upd cu)\<rparr>, directory = db\<rparr>
      else case refresh cu db of
             None \<Rightarrow> \<lparr>response = Inl RowGone, identity = assigned upd cu, directory = db\<rparr>
           | Some row \<Rightarrow>
               \<lparr>response = Inr (row\<lparr>email := email (assigned upd cu),
                                     username := username (assigned upd cu),
                                     full_name := full_name (assigned upd cu)\<rparr>),
                identity = row\<lparr>email := email (assigned upd cu),
                                username := username (assigned upd cu),
                                full_name := full_name (assigned upd cu)\<rparr>,
                directory = commit (assigned upd cu) db\<rparr>)"
  by (cases "refresh cu db")
     (auto simp: update_user_profile_def update_username_def update_full_name_run
        email_taken_def username_taken_def assigned_def Let_def refresh_def commit_def)

lemma update_user_profile_outcomes:
  assumes "out = update_user_profile upd cu db"
  shows "out = \<lparr>response = Inl (HTTPException HTTP_400_BAD_REQUEST ''Email already registered''),
                identity = cu, directory = db\<rparr> \<or>
         out = \<lparr>response = Inl (HTTPException HTTP_400_BAD_REQUEST ''Username already taken''),
                identity = cu\<lparr>email := email (assigned upd cu)\<rparr>, directory = db\<rparr> \<or>
         (refresh cu db = None \<and>
          out = \<lparr>response = Inl RowGone, identity = assigned upd cu, directory = db\<rparr>) \<or>
         (\<exists>row. refresh cu db = Some row \<and>
            out = \<lparr>response = Inr (row\<lparr>email := email (assigned upd cu),
                                        username := username (assigned upd cu),
                                        full_name := full_name (assigned upd cu)\<rparr>),
                   identity = row\<lparr>email := email (assigned upd cu),
                                   username := username (assigned upd cu),
                                   full_name := full_name (assigned upd cu)\<rparr>,
                   directory = commit (assigned upd cu) db\<rparr>)"
proof (cases "refresh cu db")
  case None
  then show ?thesis unfolding assms by (simp add: update_user_profile_run)
next
  case (Some row)
  then show ?thesis unfolding assms by (simp add: update_user_profile_run)
qed


lemma assigned_frame:
  "uid (assigned upd cu) = uid cu"
  "role (assigned upd cu) = role cu"
  "is_active (assigned upd cu) = is_active cu"
  "is_verified (assigned upd cu) = is_verified cu"
  "hashed_password (assigned upd cu) = hashed_password cu"
  by (simp_all add: assigned_def)

lemma assigned_row:
  "cu\<lparr>email := email (assigned upd cu), username := username (assigned upd cu),
      full_name := full_name (assigned upd cu)\<rparr> = assigned upd cu"
  by (simp add: assigned_def)

lemma assigned_again: "assigned upd (assigned upd cu) = assigned upd cu"
  by (simp add: assigned_def)

lemma not_taken_again:
  "\<not> email_taken upd (assigned upd cu) db'" "\<not> username_taken upd (assigned upd cu) db'"
  by (auto simp: email_taken_def username_taken_def assigned_def)

lemma resolved_commit:
  assumes "resolved cu db" and "uid obj = uid cu"
  shows "resolved (cu\<lparr>email := email obj, username := username obj, full_name := full_name obj\<rparr>)
           (commit obj db)"
  using assms unfolding resolved_def commit_def by auto

lemma commit_column_same:
  assumes "resolved cu db" and "uid obj = uid cu"
  shows "email obj = email cu \<Longrightarrow> map email (commit obj db) = map email db"
    and "username obj = username cu \<Longrightarrow> map username (commit obj db) = map username db"
    and "full_name obj = full_name cu \<Longrightarrow> map full_name (commit obj db) = map full_name db"
  using assms unfolding resolved_def commit_def by auto

lemma update_user_profile_resolved_success:
  assumes "resolved cu db" "\<not> email_taken upd cu db" "\<not> username_taken upd cu db"
  shows "update_user_profile upd cu db =
           \<lparr>response = Inr (assigned upd cu), identity = assigned upd cu,
            directory = commit (assigned upd cu) db\<rparr>"
  using assms refresh_resolved [of cu db cu]
  by (simp add: update_user_profile_run assigned_row)

lemma resolved_alice: "resolved alice [alice, bob]"
  by (simp add: resolved_def alice_def bob_def)

lemma taken_ignores_other_field:
  "email_taken (upd\<lparr>upd_username := x\<rparr>) cu db = email_taken upd cu db"
  "username_taken (upd\<lparr>upd_email := y\<rparr>) cu db = username_taken upd cu db"
  by (simp_all add: email_taken_def username_taken_def)

lemma email_block_skipped:
  assumes "\<not> (truthy (upd_email upd) \<and> upd_email upd \<noteq> email cu)"
  shows "update_user_profile upd cu db = update_user_profile (upd\<lparr>upd_email := None\<rparr>) cu db"
    and "response (update_user_profile upd cu db)
           \<noteq> Inl (HTTPException HTTP_400_BAD_REQUEST ''Email already registered'')"
proof -
  have nt: "\<not> email_taken upd cu db" "\<not> email_taken (upd\<lparr>upd_email := None\<rparr>) cu db"
    using assms by (simp_all add: email_taken_def truthy_def)
  have a: "assigned (upd\<lparr>upd_email := None\<rparr>) cu = assigned upd cu"
    using assms by (simp add: assigned_def truthy_def)
  show "update_user_profile upd cu db = update_user_profile (upd\<lparr>upd_email := None\<rparr>) cu db"
    by (simp only: update_user_profile_run nt a taken_ignores_other_field if_False)
  show "response (update_user_profile upd cu db)
           \<noteq> Inl (HTTPException HTTP_400_BAD_REQUEST ''Email already registered'')"
    using nt(1) by (cases "refresh cu db") (simp_all add: update_user_profile_run)
qed

lemma username_block_skipped:
  assumes "\<not> (truthy (upd_username upd) \<and> upd_username upd \<noteq> username cu)"
  shows "update_user_profile upd cu db = update_user_profile (upd\<lparr>upd_username := None\<rparr>) cu db"
    and "response (update_user_profile upd cu db)
           \<noteq> Inl (HTTPException HTTP_400_BAD_REQUEST ''Username already taken'')"
proof -
  have nt: "\<not> username_taken upd cu db" "\<not> username_taken (upd\<lparr>upd_username := None\<rparr>) cu db"
    using assms by (simp_all add: username_taken_def truthy_def)
  have a: "assigned (upd\<lparr>upd_username := None\<rparr>) cu = assigned upd cu"
    using assms by (simp add: assigned_def truthy_def)
  show "update_user_profile upd cu db = update_user_profile (upd\<lparr>upd_username := None\<rparr>) cu db"
    by (simp only: update_user_profile_run nt a taken_ignores_other_field if_False)
  show "response (update_user_profile upd cu db)
           \<noteq> Inl (HTTPException HTTP_400_BAD_REQUEST ''Username already taken'')"
    using nt(1) by (cases "refresh cu db") (simp_all add: update_user_profile_run)
qed

lemma update_user_profile_repeat:
  assumes row: "refresh cu db = Some row"
    and nt: "\<not> email_taken upd cu db" "\<not> username_taken upd cu db"
    and r: "r = row\<lparr>email := email (assigned upd cu), username := username (assigned upd cu),
                    full_name := full_name (assigned upd cu)\<rparr>"
  shows "update_user_profile upd r (commit (assigned upd cu) db) =
           \<lparr>response = Inr r, identity = r, directory = commit (assigned upd cu) db\<rparr>"
proof -
  let ?a = "assigned upd cu"
  have uid_r: "uid r = uid cu"
    using refresh_Some [OF row] r by simp
  have fields: "email (assigned upd r) = email r" "username (assigned upd r) = username r"
    "full_name (assigned upd r) = full_name r"
    unfolding r by (simp_all add: assigned_def)
  have same: "email r = email ?a" "username r = username ?a" "full_name r = full_name ?a"
    unfolding r by simp_all
  have again: "r\<lparr>email := email (assigned upd r), username := username (assigned upd r),
                 full_name := full_name (assigned upd r)\<rparr> = r"
    by (simp add: fields)
  have nt2: "\<not> email_taken upd r (commit ?a db)" "\<not> username_taken upd r (commit ?a db)"
    unfolding r by (auto simp: email_taken_def username_taken_def assigned_def)
  have "refresh ?a db = Some row"
    using row by (simp add: refresh_def assigned_frame)
  then have "refresh ?a (commit ?a db) = Some r"
    by (simp add: refresh_commit r)
  then have ref: "refresh r (commit ?a db) = Some r"
    by (simp add: refresh_def uid_r assigned_frame)
  have "commit (assigned upd r) (commit ?a db) = commit ?a db"
    by (rule commit_same) (simp_all add: assigned_frame uid_r fields same)
  then show ?thesis
    by (simp add: update_user_profile_run nt2 ref again)
qed

lemma update_user_profile_twice_resolved:
  assumes "resolved cu db" and "out1 = update_user_profile upd cu db"
  shows "\<exists>cu2. refresh cu (directory out1) = Some cu2 \<and>
           resolved cu2 (directory out1) \<and>
           (\<forall>r. response out1 = Inr r \<longrightarrow> cu2 = r) \<and>
           response (update_user_profile upd cu2 (directory out1)) = response out1 \<and>
           directory (update_user_profile upd cu2 (directory out1)) = directory out1"
proof (cases "email_taken upd cu db \<or> username_taken upd cu db")
  case True
  then have dir: "directory out1 = db" and fail: "\<forall>r. response out1 \<noteq> Inr r"
    using assms(2) by (auto simp: update_user_profile_run)
  have "refresh cu db = Some cu"
    using assms(1) by (simp add: refresh_resolved)
  with dir fail assms show ?thesis by simp
next
  case False
  let ?r = "assigned upd cu"
  from False assms have out1: "out1 = \<lparr>response = Inr ?r, identity = ?r, directory = commit ?r db\<rparr>"
    by (simp add: update_user_profile_resolved_success)
  have res: "resolved ?r (commit ?r db)"
    using resolved_commit [OF assms(1), of ?r] by (simp add: assigned_frame assigned_row)
  then have "refresh cu (commit ?r db) = Some ?r"
    using refresh_resolved [of ?r "commit ?r db" cu] by (simp add: assigned_frame)
  moreover have "update_user_profile upd ?r (commit ?r db) =
      \<lparr>response = Inr ?r, identity = ?r, directory = commit ?r db\<rparr>"
    using res by (simp add: update_user_profile_resolved_success not_taken_again
          assigned_again commit_same)
  ultimately show ?thesis using out1 res by simp
qed

section \<open>Role guards\<close>

text \<open>
  C2. For each required role R and each resolved identity u, the guard made by the
  factory for R returns u unchanged when the role of u is R; otherwise it fails with the
  HTTP exception of status 403 (forbidden, which is not the status 401 of an
  unauthenticated request) whose detail carries the value of R.
\<close>

theorem require_role_guard:
  "(role u = R \<longrightarrow> require_role val R u = Inr u) \<and>
   (role u \<noteq> R \<longrightarrow>
      require_role val R u =
        Inl (HTTPException HTTP_403_FORBIDDEN (''Access denied. Required role: '' @ val R))) \<and>
   HTTP_403_FORBIDDEN \<noteq> HTTP_401_UNAUTHORIZED"
  by (simp add: require_role_def HTTP_403_FORBIDDEN_def HTTP_401_UNAUTHORIZED_def)

theorem require_role_guard_witness:
  "require_role role_name ADMIN bob = Inr bob \<and>
   require_role role_name ADMIN alice =
     Inl (HTTPException HTTP_403_FORBIDDEN ''Access denied. Required role: admin'')"
  using require_role_guard [of bob ADMIN role_name] require_role_guard [of alice ADMIN role_name]
  by (simp add: alice_def bob_def role_name_def)

text \<open>
  C3. The claim is that the admin-only guard and the guard of the factory at ADMIN have
  the same outcome on every identity. They differ on an identity that is rejected: the
  detail strings of the two exceptions are not the same.
\<close>

theorem require_admin_drift_counterexample:
  "role alice \<noteq> ADMIN \<and> require_admin alice \<noteq> require_role role_name ADMIN alice"
  by (simp add: require_admin_def require_role_def alice_def role_name_def)

text \<open>
  C3, as the code has it. The two guards accept the same identities and return the
  identity unchanged; both reject with status 403, the admin-only guard with a fixed
  detail that does not carry the role's value, the factory's guard with the detail that
  does, so that the two failures differ whatever the value of ADMIN is.
\<close>

theorem require_admin_agrees_up_to_detail:
  "(require_admin u = Inr u \<longleftrightarrow> require_role val ADMIN u = Inr u) \<and>
   (role u = ADMIN \<longrightarrow> require_admin u = Inr u \<and> require_role val ADMIN u = Inr u) \<and>
   (role u \<noteq> ADMIN \<longrightarrow>
      require_admin u = Inl (HTTPException HTTP_403_FORBIDDEN ''Access denied. Admin role required.'') \<and>
      require_role val ADMIN u =
        Inl (HTTPException HTTP_403_FORBIDDEN (''Access denied. Required role: '' @ val ADMIN)) \<and>
      require_admin u \<noteq> require_role val ADMIN u)"
  by (simp add: require_admin_def require_role_def)

theorem require_admin_agrees_up_to_detail_witness:
  "require_admin bob = Inr bob \<and> require_role role_name ADMIN bob = Inr bob \<and>
   require_admin alice = Inl (HTTPException HTTP_403_FORBIDDEN ''Access denied. Admin role required.'') \<and>
   require_role role_name ADMIN alice =
     Inl (HTTPException HTTP_403_FORBIDDEN ''Access denied. Required role: admin'')"
  using require_admin_agrees_up_to_detail [of bob role_name]
    require_admin_agrees_up_to_detail [of alice role_name]
  by (simp add: alice_def bob_def role_name_def)

section \<open>Statistics\<close>

text \<open>
  C6. The statistics are four counts over the directory: all rows, the active ones, the
  verified ones and the admins. Each of the last three is at most the first, and the
  number of rows of role USER plus the admin count is the total (a role is USER or ADMIN
  by its type).
\<close>

theorem get_admin_stats_counts:
  "total_users (get_admin_stats cu db) = length db \<and>
   active_users (get_admin_stats cu db) = length (filter is_active db) \<and>
   verified_users (get_admin_stats cu db) = length (filter is_verified db) \<and>
   admin_users (get_admin_stats cu db) = length (filter (\<lambda>u. role u = ADMIN) db) \<and>
   admin_users (get_admin_stats cu db) \<le> total_users (get_admin_stats cu db) \<and>
   active_users (get_admin_stats cu db) \<le> total_users (get_admin_stats cu db) \<and>
   verified_users (get_admin_stats cu db) \<le> total_users (get_admin_stats cu db) \<and>
   length (filter (\<lambda>u. role u = USER) db) + admin_users (get_admin_stats cu db)
     = total_users (get_admin_stats cu db)"
proof -
  have "length (filter (\<lambda>u. role u = USER) db) + length (filter (\<lambda>u. role u = ADMIN) db)
          = length db"
  proof (induction db)
    case Nil
    show ?case by simp
  next
    case (Cons u us)
    then show ?case by (cases "role u") simp_all
  qed
  then show ?thesis by (simp add: get_admin_stats_def)
qed

theorem get_admin_stats_counts_witness:
  "total_users (get_admin_stats bob [alice, bob]) = 2 \<and>
   active_users (get_admin_stats bob [alice, bob]) = 2 \<and>
   verified_users (get_admin_stats bob [alice, bob]) = 1 \<and>
   admin_users (get_admin_stats bob [alice, bob]) = 1"
  using get_admin_stats_counts [of bob "[alice, bob]"]
  by (simp add: alice_def bob_def)

section \<open>Self-delete\<close>

text \<open>
  C8. Self-delete has no precondition and no failure: it returns the empty success
  signal, no row with the caller's primary key is left (the caller's record is gone),
  and the rows of the other keys are the same as before, in the same order.
\<close>

theorem delete_user_account_removes_own_record:
  "fst (delete_user_account cu db) = Inr () \<and>
   (\<forall>u\<in>set (snd (delete_user_account cu db)). uid u \<noteq> uid cu) \<and>
   cu \<notin> set (snd (delete_user_account cu db)) \<and>
   (\<forall>u. uid u \<noteq> uid cu \<longrightarrow> (u \<in> set (snd (delete_user_account cu db)) \<longleftrightarrow> u \<in> set db)) \<and>
   filter (\<lambda>u. uid u \<noteq> uid cu) (snd (delete_user_account cu db))
     = filter (\<lambda>u. uid u \<noteq> uid cu) db"
  by (auto simp: delete_user_account_def)

theorem delete_user_account_removes_own_record_witness:
  "alice \<in> set [alice, bob] \<and> delete_user_account alice [alice, bob] = (Inr (), [bob])"
  using delete_user_account_removes_own_record [of alice "[alice, bob]"]
  by (simp add: delete_user_account_def alice_def bob_def)


section \<open>Self-update\<close>

text \<open>
  C1. The claim is that both uniqueness checks are evaluated before any field of the
  identity record is written, so that an update that conflicts on the username and not
  on the email leaves every field of the record as it was. Alice asks for a free email
  and for Bob's username: the request fails with the username conflict, and at that
  point the email of her identity record has already been assigned.
\<close>

theorem update_user_profile_write_before_check_counterexample:
  "find (\<lambda>u. email u = upd_email upd_clash) [alice, bob] = None \<and>
   find (\<lambda>u. username u = upd_username upd_clash) [alice, bob] = Some bob \<and>
   update_user_profile upd_clash alice [alice, bob] =
     \<lparr>response = Inl (HTTPException HTTP_400_BAD_REQUEST ''Username already taken''),
      identity = alice\<lparr>email := Some ''c@x.com''\<rparr>, directory = [alice, bob]\<rparr> \<and>
   email (identity (update_user_profile upd_clash alice [alice, bob])) \<noteq> email alice"
  by (simp add: update_user_profile_def update_username_def truthy_def upd_clash_def
      alice_def bob_def)

text \<open>
  C1, as the code has it. Whenever the self-update fails, nothing has been committed: the
  directory is the one before the call. The email check comes before every write: on an
  email conflict the identity record is untouched. The username check comes after the
  email block: on a username conflict without an email conflict (the email is omitted,
  empty, the caller's own, or held by no row) the request fails with
  \<open>Username already taken\<close>, the directory is unchanged, and the identity object of the
  session carries the new email when the email block has assigned it.
\<close>

theorem update_user_profile_failure_commits_nothing:
  assumes "out = update_user_profile upd cu db"
  shows "(\<forall>e. response out = Inl e \<longrightarrow> directory out = db) \<and>
         (truthy (upd_email upd) \<and> upd_email upd \<noteq> email cu \<and>
          (\<exists>u\<in>set db. email u = upd_email upd) \<longrightarrow>
            out = \<lparr>response = Inl (HTTPException HTTP_400_BAD_REQUEST ''Email already registered''),
                   identity = cu, directory = db\<rparr>) \<and>
         (truthy (upd_username upd) \<and> upd_username upd \<noteq> username cu \<and>
          (\<exists>u\<in>set db. username u = upd_username upd) \<and>
          \<not> (truthy (upd_email upd) \<and> upd_email upd \<noteq> email cu \<and>
             (\<exists>u\<in>set db. email u = upd_email upd)) \<longrightarrow>
            out = \<lparr>response = Inl (HTTPException HTTP_400_BAD_REQUEST ''Username already taken''),
                   identity = (if truthy (upd_email upd) \<and> upd_email upd \<noteq> email cu
                               then cu\<lparr>email := upd_email upd\<rparr> else cu),
                   directory = db\<rparr>)"
proof -
  have "directory out = db" if "response out = Inl e" for e
    using that assms by (auto simp: update_user_profile_run split: if_splits option.splits)
  moreover have "email_taken upd cu db \<longleftrightarrow>
      truthy (upd_email upd) \<and> upd_email upd \<noteq> email cu \<and> (\<exists>u\<in>set db. email u = upd_email upd)"
    by (auto simp: email_taken_def find_None_iff)
  moreover have "username_taken upd cu db \<longleftrightarrow>
      truthy (upd_username upd) \<and> upd_username upd \<noteq> username cu \<and>
      (\<exists>u\<in>set db. username u = upd_username upd)"
    by (auto simp: username_taken_def find_None_iff)
  moreover have "cu\<lparr>email := email (assigned upd cu)\<rparr> =
      (if truthy (upd_email upd) \<and> upd_email upd \<noteq> email cu then cu\<lparr>email := upd_email upd\<rparr> else cu)"
    by (simp add: assigned_def)
  ultimately show ?thesis
    using assms by (simp add: update_user_profile_run)
qed

theorem update_user_profile_failure_commits_nothing_witness:
  "update_user_profile upd_clash alice [alice, bob] =
     \<lparr>response = Inl (HTTPException HTTP_400_BAD_REQUEST ''Username already taken''),
      identity = alice\<lparr>email := Some ''c@x.com''\<rparr>, directory = [alice, bob]\<rparr> \<and>
   (\<exists>u\<in>set [alice, bob]. email u = upd_email upd_own_clash) \<and>
   update_user_profile upd_own_clash alice [alice, bob] =
     \<lparr>response = Inl (HTTPException HTTP_400_BAD_REQUEST ''Username already taken''),
      identity = alice, directory = [alice, bob]\<rparr>"
  using update_user_profile_failure_commits_nothing [OF refl, of upd_clash alice "[alice, bob]"]
    update_user_profile_failure_commits_nothing [OF refl, of upd_own_clash alice "[alice, bob]"]
  by (simp add: truthy_def upd_clash_def upd_own_clash_def alice_def bob_def)

text \<open>
  C4. The claim is that a new email that differs from the caller's current one is applied
  whenever no other record holds it. The empty string differs from Alice's email and no
  record holds it, yet the request succeeds with her email unchanged.
\<close>

theorem update_user_profile_empty_email_counterexample:
  "upd_email upd_empty_email \<noteq> email alice \<and>
   \<not> (\<exists>u\<in>set [alice, bob]. email u = upd_email upd_empty_email) \<and>
   update_user_profile upd_empty_email alice [alice, bob] =
     \<lparr>response = Inr alice, identity = alice, directory = [alice, bob]\<rparr> \<and>
   email alice \<noteq> upd_email upd_empty_email"
  by (simp add: update_user_profile_def update_username_def update_full_name_def Let_def
      commit_def refresh_def truthy_def upd_empty_email_def alice_def bob_def)

text \<open>
  C4, as the code has it. Let the new email be non-empty and differ from the caller's
  current one. If another record of the directory holds it, the request fails with
  status 400 and \<open>Email already registered\<close>, whatever the other fields of the request,
  and neither the identity record nor the directory is changed. If no other record holds
  it, the handler goes on to the username block with the email assigned: the identity
  object carries the new email, a returned record carries it and is the caller's row of
  the committed directory, and for a resolved caller the request does succeed unless the
  username check fails.
\<close>

theorem update_user_profile_email_change:
  assumes "upd_email upd = Some e" and "e \<noteq> []" and "Some e \<noteq> email cu"
    and "out = update_user_profile upd cu db"
  shows "((\<exists>u\<in>set db. u \<noteq> cu \<and> email u = Some e) \<longrightarrow>
            out = \<lparr>response = Inl (HTTPException HTTP_400_BAD_REQUEST ''Email already registered''),
                   identity = cu, directory = db\<rparr>) \<and>
         (\<not> (\<exists>u\<in>set db. u \<noteq> cu \<and> email u = Some e) \<longrightarrow>
            out = update_username upd (cu\<lparr>email := Some e\<rparr>) db \<and>
            email (identity out) = Some e \<and>
            (\<forall>r. response out = Inr r \<longrightarrow>
               email r = Some e \<and> uid r = uid cu \<and> r \<in> set (directory out)) \<and>
            (resolved cu db \<and>
             \<not> (truthy (upd_username upd) \<and> upd_username upd \<noteq> username cu \<and>
                (\<exists>u\<in>set db. username u = upd_username upd)) \<longrightarrow>
               response out = Inr (identity out) \<and> directory out = commit (identity out) db))"
proof -
  have other: "(\<exists>u\<in>set db. u \<noteq> cu \<and> email u = Some e) \<longleftrightarrow> (\<exists>u\<in>set db. email u = Some e)"
    using assms(3) by metis
  have taken: "email_taken upd cu db \<longleftrightarrow> (\<exists>u\<in>set db. email u = Some e)"
    using assms(1-3) by (auto simp: email_taken_def truthy_def find_None_iff)
  have utaken: "username_taken upd cu db \<longleftrightarrow>
      truthy (upd_username upd) \<and> upd_username upd \<noteq> username cu \<and>
      (\<exists>u\<in>set db. username u = upd_username upd)"
    by (auto simp: username_taken_def find_None_iff)
  have em: "email (assigned upd cu) = Some e"
    using assms(1-3) by (simp add: assigned_def truthy_def)
  show ?thesis
  proof (intro conjI impI)
    assume "\<exists>u\<in>set db. u \<noteq> cu \<and> email u = Some e"
    then show "out = \<lparr>response = Inl (HTTPException HTTP_400_BAD_REQUEST ''Email already registered''),
                   identity = cu, directory = db\<rparr>"
      using assms(4) other taken by (simp add: update_user_profile_run)
  next
    assume free: "\<not> (\<exists>u\<in>set db. u \<noteq> cu \<and> email u = Some e)"
    then have none: "find (\<lambda>u. email u = Some e) db = None"
      using other by (simp add: find_None_iff)
    show "out = update_username upd (cu\<lparr>email := Some e\<rparr>) db"
      using assms none by (simp add: update_user_profile_def truthy_def)
    from free other taken have nt: "\<not> email_taken upd cu db" by simp
    show "email (identity out) = Some e"
      using assms(4) nt em by (simp add: update_user_profile_run split: option.splits)
    show "\<forall>r. response out = Inr r \<longrightarrow> email r = Some e \<and> uid r = uid cu \<and> r \<in> set (directory out)"
    proof (intro allI impI)
      fix r assume ok: "response out = Inr r"
      then obtain row where row: "refresh cu db = Some row"
        and r: "r = row\<lparr>email := email (assigned upd cu), username := username (assigned upd cu),
                        full_name := full_name (assigned upd cu)\<rparr>"
        and dir: "directory out = commit (assigned upd cu) db"
        using assms(4) nt by (auto simp: update_user_profile_run split: if_splits option.splits)
      from row have "uid row = uid cu" and "row \<in> set db"
        using refresh_Some by blast+
      then have "r \<in> set (commit (assigned upd cu) db)"
        unfolding commit_def r by (force simp: assigned_frame)
      with r em dir \<open>uid row = uid cu\<close>
      show "email r = Some e \<and> uid r = uid cu \<and> r \<in> set (directory out)" by simp
    qed
  next
    assume free: "\<not> (\<exists>u\<in>set db. u \<noteq> cu \<and> email u = Some e)"
      and "resolved cu db \<and>
           \<not> (truthy (upd_username upd) \<and> upd_username upd \<noteq> username cu \<and>
              (\<exists>u\<in>set db. username u = upd_username upd))"
    then show "response out = Inr (identity out)" "directory out = commit (identity out) db"
      using assms(4) other taken utaken
      by (simp_all add: update_user_profile_resolved_success)
  qed
qed

theorem update_user_profile_email_change_witness:
  "update_user_profile upd_email_only alice [alice, bob] =
     \<lparr>response = Inl (HTTPException HTTP_400_BAD_REQUEST ''Email already registered''),
      identity = alice, directory = [alice, bob]\<rparr> \<and>
   resolved alice [alice, bob] \<and>
   response (update_user_profile upd_email_free alice [alice, bob])
     = Inr (alice\<lparr>email := Some ''c@x.com''\<rparr>) \<and>
   directory (update_user_profile upd_email_free alice [alice, bob])
     = [alice\<lparr>email := Some ''c@x.com''\<rparr>, bob]"
proof -
  have 1: "update_user_profile upd_email_only alice [alice, bob] =
     \<lparr>response = Inl (HTTPException HTTP_400_BAD_REQUEST ''Email already registered''),
      identity = alice, directory = [alice, bob]\<rparr>"
    using update_user_profile_email_change
      [of upd_email_only "''b@x.com''" alice _ "[alice, bob]", OF _ _ _ refl]
    by (simp add: upd_email_only_def alice_def bob_def)
  have 2: "email (identity (update_user_profile upd_email_free alice [alice, bob])) = Some ''c@x.com''"
    using update_user_profile_email_change
      [of upd_email_free "''c@x.com''" alice _ "[alice, bob]", OF _ _ _ refl]
    by (simp add: update_user_profile_def update_username_def update_full_name_def Let_def
        commit_def refresh_def truthy_def upd_email_free_def alice_def bob_def)
  show ?thesis using 1 2 resolved_alice
    by (simp add: update_user_profile_def update_username_def update_full_name_def Let_def
        commit_def refresh_def truthy_def upd_email_free_def alice_def bob_def)
qed




text \<open>
  C7. Self-update is idempotent. If the first call returns a record, the same update by
  that record on the resulting directory returns the same record and leaves the same
  directory; if the first call fails, the directory is unchanged. For a resolved caller:
  after the first call the caller's key resolves again in the resulting directory (to the
  returned record when the call succeeded), and the second call by that identity gives
  the same response and the same directory as the first.
\<close>

theorem update_user_profile_idempotent:
  assumes "out1 = update_user_profile upd cu db"
  shows "(\<forall>r. response out1 = Inr r \<longrightarrow>
            update_user_profile upd r (directory out1) =
              \<lparr>response = Inr r, identity = r, directory = directory out1\<rparr>) \<and>
         (\<forall>e. response out1 = Inl e \<longrightarrow> directory out1 = db) \<and>
         (resolved cu db \<longrightarrow>
            (\<exists>cu2. refresh cu (directory out1) = Some cu2 \<and>
               resolved cu2 (directory out1) \<and>
               (\<forall>r. response out1 = Inr r \<longrightarrow> cu2 = r) \<and>
               response (update_user_profile upd cu2 (directory out1)) = response out1 \<and>
               directory (update_user_profile upd cu2 (directory out1)) = directory out1))"
proof (intro conjI allI impI)
  fix r assume ok: "response out1 = Inr r"
  have nt: "\<not> email_taken upd cu db" "\<not> username_taken upd cu db"
    using ok assms by (auto simp: update_user_profile_run split: if_splits)
  then obtain row where row: "refresh cu db = Some row"
    using ok assms by (cases "refresh cu db") (simp_all add: update_user_profile_run)
  with nt ok assms have r: "r = row\<lparr>email := email (assigned upd cu),
      username := username (assigned upd cu), full_name := full_name (assigned upd cu)\<rparr>"
    and dir: "directory out1 = commit (assigned upd cu) db"
    by (simp_all add: update_user_profile_run)
  show "update_user_profile upd r (directory out1) =
          \<lparr>response = Inr r, identity = r, directory = directory out1\<rparr>"
    unfolding dir by (rule update_user_profile_repeat [OF row nt r])
next
  fix e assume "response out1 = Inl e"
  then show "directory out1 = db"
    using assms by (cases "refresh cu db") (auto simp: update_user_profile_run split: if_splits)
next
  assume res: "resolved cu db"
  show "\<exists>cu2. refresh cu (directory out1) = Some cu2 \<and>
           resolved cu2 (directory out1) \<and>
           (\<forall>r. response out1 = Inr r \<longrightarrow> cu2 = r) \<and>
           response (update_user_profile upd cu2 (directory out1)) = response out1 \<and>
           directory (update_user_profile upd cu2 (directory out1)) = directory out1"
    by (rule update_user_profile_twice_resolved [OF res assms])
qed

theorem update_user_profile_idempotent_witness:
  "resolved alice [alice, bob] \<and>
   response (update_user_profile upd_same alice [alice, bob])
     = Inr (alice\<lparr>email := Some ''a2@x.com'', full_name := Some ''''\<rparr>) \<and>
   update_user_profile upd_same (alice\<lparr>email := Some ''a2@x.com'', full_name := Some ''''\<rparr>)
       (directory (update_user_profile upd_same alice [alice, bob]))
     = update_user_profile upd_same alice [alice, bob]"
proof -
  have run: "update_user_profile upd_same alice [alice, bob] =
      \<lparr>response = Inr (alice\<lparr>email := Some ''a2@x.com'', full_name := Some ''''\<rparr>),
       identity = alice\<lparr>email := Some ''a2@x.com'', full_name := Some ''''\<rparr>,
       directory = [alice\<lparr>email := Some ''a2@x.com'', full_name := Some ''''\<rparr>, bob]\<rparr>"
    by (simp add: update_user_profile_def update_username_def update_full_name_def Let_def
        commit_def refresh_def truthy_def upd_same_def alice_def bob_def)
  from update_user_profile_idempotent [OF refl, of upd_same alice "[alice, bob]"] resolved_alice
  obtain cu2 where "refresh alice (directory (update_user_profile upd_same alice [alice, bob])) = Some cu2"
    and "\<forall>r. response (update_user_profile upd_same alice [alice, bob]) = Inr r \<longrightarrow> cu2 = r"
    and "response (update_user_profile upd_same cu2 (directory (update_user_profile upd_same alice [alice, bob])))
          = response (update_user_profile upd_same alice [alice, bob])"
    and "directory (update_user_profile upd_same cu2 (directory (update_user_profile upd_same alice [alice, bob])))
          = directory (update_user_profile upd_same alice [alice, bob])"
    by blast
  then show ?thesis using resolved_alice run
    by (simp add: update_user_profile_def update_username_def update_full_name_def Let_def
        commit_def refresh_def truthy_def upd_same_def alice_def bob_def)
qed

text \<open>
  C9. The self-update modifies nothing outside email, username and full name: in every
  row of the directory the primary key, the role, the active and verified flags and the
  hashed password are as before, the rows of other keys are unchanged, and the identity
  keeps its key; for a resolved caller the identity record keeps role, flags and hashed
  password as well, and a field omitted from the request keeps its value in the identity
  record and in every row.
\<close>

theorem update_user_profile_frame:
  assumes "out = update_user_profile upd cu db"
  shows "map uid (directory out) = map uid db \<and>
         map role (directory out) = map role db \<and>
         map is_active (directory out) = map is_active db \<and>
         map is_verified (directory out) = map is_verified db \<and>
         map hashed_password (directory out) = map hashed_password db \<and>
         filter (\<lambda>u. uid u \<noteq> uid cu) (directory out) = filter (\<lambda>u. uid u \<noteq> uid cu) db \<and>
         uid (identity out) = uid cu \<and>
         (resolved cu db \<longrightarrow>
            role (identity out) = role cu \<and>
            is_active (identity out) = is_active cu \<and>
            is_verified (identity out) = is_verified cu \<and>
            hashed_password (identity out) = hashed_password cu \<and>
            (upd_email upd = None \<longrightarrow>
               email (identity out) = email cu \<and> map email (directory out) = map email db) \<and>
            (upd_username upd = None \<longrightarrow>
               username (identity out) = username cu \<and>
               map username (directory out) = map username db) \<and>
            (upd_full_name upd = None \<longrightarrow>
               full_name (identity out) = full_name cu \<and>
               map full_name (directory out) = map full_name db))"
proof -
  let ?a = "assigned upd cu"
  note cases = update_user_profile_outcomes [OF assms]
  have dir: "directory out = db \<or> directory out = commit ?a db"
    using cases by (elim disjE exE conjE) simp_all
  have others: "filter (\<lambda>u. uid u \<noteq> uid cu) (commit ?a db) = filter (\<lambda>u. uid u \<noteq> uid cu) db"
    using commit_others [of ?a db] by (simp add: assigned_frame)
  have key: "uid (identity out) = uid cu"
    using cases
  proof (elim disjE exE conjE)
    fix row assume "refresh cu db = Some row"
      and "out = \<lparr>response = Inr (row\<lparr>email := email ?a, username := username ?a,
                                        full_name := full_name ?a\<rparr>),
                   identity = row\<lparr>email := email ?a, username := username ?a,
                                   full_name := full_name ?a\<rparr>,
                   directory = commit ?a db\<rparr>"
    then show ?thesis using refresh_Some [of cu db row] by simp
  qed (simp_all add: assigned_frame)
  have rows: "map uid (directory out) = map uid db"
    "map role (directory out) = map role db"
    "map is_active (directory out) = map is_active db"
    "map is_verified (directory out) = map is_verified db"
    "map hashed_password (directory out) = map hashed_password db"
    "filter (\<lambda>u. uid u \<noteq> uid cu) (directory out) = filter (\<lambda>u. uid u \<noteq> uid cu) db"
    using dir others commit_keeps [of ?a db] by (elim disjE; simp)+
  have att: "role (identity out) = role cu \<and>
            is_active (identity out) = is_active cu \<and>
            is_verified (identity out) = is_verified cu \<and>
            hashed_password (identity out) = hashed_password cu \<and>
            (upd_email upd = None \<longrightarrow>
               email (identity out) = email cu \<and> map email (directory out) = map email db) \<and>
            (upd_username upd = None \<longrightarrow>
               username (identity out) = username cu \<and>
               map username (directory out) = map username db) \<and>
            (upd_full_name upd = None \<longrightarrow>
               full_name (identity out) = full_name cu \<and>
               map full_name (directory out) = map full_name db)" if res: "resolved cu db"
  proof -
    have row: "refresh cu db = Some cu"
      using res by (simp add: refresh_resolved)
    have ident: "identity out = cu \<or> identity out = cu\<lparr>email := email ?a\<rparr> \<or> identity out = ?a"
      using cases row by (elim disjE exE conjE) (simp_all add: assigned_row)
    have e: "email ?a = email cu" if "upd_email upd = None"
      using that by (simp add: assigned_def truthy_def)
    have u: "username ?a = username cu" if "upd_username upd = None"
      using that by (simp add: assigned_def truthy_def)
    have f: "full_name ?a = full_name cu" if "upd_full_name upd = None"
      using that by (simp add: assigned_def)
    have uida: "uid ?a = uid cu" by (simp add: assigned_frame)
    have fixed: "role (identity out) = role cu" "is_active (identity out) = is_active cu"
      "is_verified (identity out) = is_verified cu"
      "hashed_password (identity out) = hashed_password cu"
      using ident by (elim disjE; simp add: assigned_frame)+
    have em: "email (identity out) = email cu \<and> map email (directory out) = map email db"
      if none: "upd_email upd = None"
    proof
      show "email (identity out) = email cu"
        using ident e [OF none] by (elim disjE) simp_all
      show "map email (directory out) = map email db"
        using dir commit_column_same(1) [OF res uida e [OF none]] by (elim disjE) simp_all
    qed
    have un: "username (identity out) = username cu \<and>
        map username (directory out) = map username db"
      if none: "upd_username upd = None"
    proof
      show "username (identity out) = username cu"
        using ident u [OF none] by (elim disjE) simp_all
      show "map username (directory out) = map username db"
        using dir commit_column_same(2) [OF res uida u [OF none]] by (elim disjE) simp_all
    qed
    have fn: "full_name (identity out) = full_name cu \<and>
        map full_name (directory out) = map full_name db"
      if none: "upd_full_name upd = None"
    proof
      show "full_name (identity out) = full_name cu"
        using ident f [OF none] by (elim disjE) simp_all
      show "map full_name (directory out) = map full_name db"
        using dir commit_column_same(3) [OF res uida f [OF none]] by (elim disjE) simp_all
    qed
    from fixed em un fn show ?thesis by blast
  qed
  from rows key att show ?thesis by blast
qed

theorem update_user_profile_frame_witness:
  "resolved alice [alice, bob] \<and>
   update_user_profile upd_email_free alice [alice, bob] =
     \<lparr>response = Inr (alice\<lparr>email := Some ''c@x.com''\<rparr>),
      identity = alice\<lparr>email := Some ''c@x.com''\<rparr>,
      directory = [alice\<lparr>email := Some ''c@x.com''\<rparr>, bob]\<rparr> \<and>
   role (identity (update_user_profile upd_email_free alice [alice, bob])) = USER \<and>
   username (identity (update_user_profile upd_email_free alice [alice, bob])) = Some ''alice''"
proof -
  have run: "update_user_profile upd_email_free alice [alice, bob] =
     \<lparr>response = Inr (alice\<lparr>email := Some ''c@x.com''\<rparr>),
      identity = alice\<lparr>email := Some ''c@x.com''\<rparr>,
      directory = [alice\<lparr>email := Some ''c@x.com''\<rparr>, bob]\<rparr>"
    by (simp add: update_user_profile_def update_username_def update_full_name_def Let_def
      commit_def refresh_def truthy_def upd_email_free_def alice_def bob_def)
  have none: "upd_username upd_email_free = None"
    by (simp add: upd_email_free_def)
  have "role (identity (update_user_profile upd_email_free alice [alice, bob])) = role alice \<and>
        username (identity (update_user_profile upd_email_free alice [alice, bob])) = username alice"
    using update_user_profile_frame [OF refl, of upd_email_free alice "[alice, bob]"]
      resolved_alice none by blast
  then show ?thesis using run resolved_alice by (simp add: alice_def)
qed

text \<open>
  C10. The check and the write of the email block happen only when the supplied email is
  non-empty and differs from the caller's current one; otherwise the request behaves as
  the request without the email, and never fails with the email conflict. The same holds
  of the username block. So an explicit empty string is treated as an omitted field, and
  re-submitting one's own email or username never fails with the conflict of that field,
  although the caller's own row holds the value.
\<close>

theorem update_user_profile_empty_or_own_value:
  "(\<not> (truthy (upd_email upd) \<and> upd_email upd \<noteq> email cu) \<longrightarrow>
      update_user_profile upd cu db = update_user_profile (upd\<lparr>upd_email := None\<rparr>) cu db \<and>
      response (update_user_profile upd cu db)
        \<noteq> Inl (HTTPException HTTP_400_BAD_REQUEST ''Email already registered'')) \<and>
   (\<not> (truthy (upd_username upd) \<and> upd_username upd \<noteq> username cu) \<longrightarrow>
      update_user_profile upd cu db = update_user_profile (upd\<lparr>upd_username := None\<rparr>) cu db \<and>
      response (update_user_profile upd cu db)
        \<noteq> Inl (HTTPException HTTP_400_BAD_REQUEST ''Username already taken'')) \<and>
   update_user_profile (upd\<lparr>upd_email := Some []\<rparr>) cu db
     = update_user_profile (upd\<lparr>upd_email := None\<rparr>) cu db \<and>
   update_user_profile (upd\<lparr>upd_username := Some []\<rparr>) cu db
     = update_user_profile (upd\<lparr>upd_username := None\<rparr>) cu db \<and>
   (upd_email upd = email cu \<longrightarrow>
      response (update_user_profile upd cu db)
        \<noteq> Inl (HTTPException HTTP_400_BAD_REQUEST ''Email already registered'')) \<and>
   (upd_username upd = username cu \<longrightarrow>
      response (update_user_profile upd cu db)
        \<noteq> Inl (HTTPException HTTP_400_BAD_REQUEST ''Username already taken''))"
proof -
  have "update_user_profile (upd\<lparr>upd_email := Some []\<rparr>) cu db
     = update_user_profile (upd\<lparr>upd_email := None\<rparr>) cu db"
    using email_block_skipped(1) [of "upd\<lparr>upd_email := Some []\<rparr>" cu db]
    by (simp add: truthy_def)
  moreover have "update_user_profile (upd\<lparr>upd_username := Some []\<rparr>) cu db
     = update_user_profile (upd\<lparr>upd_username := None\<rparr>) cu db"
    using username_block_skipped(1) [of "upd\<lparr>upd_username := Some []\<rparr>" cu db]
    by (simp add: truthy_def)
  ultimately show ?thesis
    using email_block_skipped [of upd cu db] username_block_skipped [of upd cu db]
    by blast
qed

theorem update_user_profile_empty_or_own_value_witness:
  "upd_email upd_own = email alice \<and>
   find (\<lambda>u. email u = upd_email upd_own) [alice, bob] = Some alice \<and>
   \<not> truthy (upd_username upd_own) \<and>
   update_user_profile upd_own alice [alice, bob] =
     \<lparr>response = Inr alice, identity = alice, directory = [alice, bob]\<rparr>"
proof -
  have own: "upd_email upd_own = email alice" and empty: "\<not> truthy (upd_username upd_own)"
    by (simp_all add: upd_own_def alice_def truthy_def)
  have "update_user_profile upd_own alice [alice, bob]
          = update_user_profile (upd_own\<lparr>upd_email := None\<rparr>) alice [alice, bob]"
    using update_user_profile_empty_or_own_value [of upd_own alice "[alice, bob]"] own
    by blast
  moreover have "update_user_profile (upd_own\<lparr>upd_email := None\<rparr>) alice [alice, bob]
          = \<lparr>response = Inr alice, identity = alice, directory = [alice, bob]\<rparr>"
    by (simp add: update_user_profile_def update_username_def update_full_name_def Let_def
      commit_def refresh_def truthy_def upd_own_def alice_def bob_def)
  moreover have "find (\<lambda>u. email u = upd_email upd_own) [alice, bob] = Some alice"
    by (simp add: upd_own_def alice_def)
  ultimately show ?thesis using own empty by simp
qed

end
